theory Spec2Isabelle
  imports Main "HOL-Library.Word"
begin

section \<open>Values, errors and the world outside the gateway\<close>

text \<open>
  Bytes are 8-bit words; a Python \<open>bytes\<close> object is a list of them. A Python \<open>str\<close> is a
  \<open>string\<close>. A value decoded from JSON is a \<open>json\<close>; a \<open>JObj\<close> holds the decoded
  dict as an association list, looked up with \<open>map_of\<close>.
\<close>

type_synonym byte = "8 word"
type_synonym bytes = "byte list"

datatype json =
    JNull
  | JBool bool
  | JNum int
  | JStr string
  | JArr "json list"
  | JObj "(string \<times> json) list"

datatype datetime = Datetime int

text \<open>
  Every exception the modelled code can raise is a value. \<open>RequestError\<close> is any
  transport failure of httpx, \<open>HTTPStatusError\<close> what \<open>raise_for_status\<close> raises,
  \<open>JSONDecodeError\<close> what \<open>response.json()\<close> raises on a body that is not JSON,
  \<open>TypeError\<close> what \<open>Model(**x)\<close> or \<open>len(x)\<close> raise on a value of the wrong
  kind, \<open>ValidationError\<close> pydantic's error with the offending field names,
  \<open>HTTPException\<close> FastAPI's exception with its status code and the wrapped cause, and
  \<open>FastAPIError\<close> what FastAPI raises when a route is declared with a parameter it
  cannot handle (it carries the parameter's class).
\<close>

datatype error =
    RequestError
  | HTTPStatusError nat
  | JSONDecodeError
  | TypeError
  | ValidationError "string list"
  | AttributeError string
  | ValueError string
  | OSError string
  | HTTPException nat error
  | FastAPIError string

datatype http_verb = GET | POST | DELETE

text \<open>
  What a call of \<open>client.get\<close>, \<open>client.post\<close> or \<open>client.delete\<close> passes: nothing,
  \<open>json=payload\<close>, or \<open>files=files, data=data\<close>. For the last, httpx writes the body
  as a multipart form: one part per entry of \<open>files\<close>, named by its key and carrying a
  file name and the bytes, and one form field per entry of \<open>data\<close>.
\<close>

datatype request_body =
    NoBody
  | JsonBody json
  | FilesBody "(string \<times> string \<times> bytes) list" "(string \<times> string) list"

text \<open>
  A request as it leaves the client. \<open>headers\<close> are the headers the client was created
  with (\<open>httpx.AsyncClient(headers=self._get_headers())\<close>): httpx sends them with every
  request, and a header the client sets is kept over the one the body's encoder would
  add, so a \<open>Content-Type\<close> listed here is the one the request goes out with.
\<close>

record request =
  verb :: http_verb
  url :: string
  headers :: "(string \<times> string) list"
  body :: request_body

text \<open>
  An upstream answer: its status code, its raw body, and the body decoded as JSON
  (\<open>None\<close> when the body is not JSON).
\<close>

record response =
  status_code :: nat
  content :: bytes
  json_body :: "json option"

datatype http_outcome = Failed | Answered response

text \<open>
  The environment of a call: the client's base URL and API key, the upstream service
  (its answer may depend on the calls made so far), the local file system, pydantic's
  datetime parser and the clock read by \<open>datetime.utcnow()\<close>.
\<close>

record env =
  base_url :: string
  api_key :: "string option"
  upstream :: "request list \<Rightarrow> request \<Rightarrow> http_outcome"
  file_system :: "string \<Rightarrow> bytes option"
  parse_datetime :: "json \<Rightarrow> datetime option"
  utcnow :: datetime

text \<open>
  The state of a \<open>WahaClient\<close>: \<open>http_client\<close> is \<open>None\<close> before the first use and
  \<open>Some closed\<close> afterwards; \<open>calls\<close> logs every HTTP request issued, oldest first.
\<close>

record client_state =
  http_client :: "bool option"
  calls :: "request list"

section \<open>The upstream client (app/utils/waha\_client.py)\<close>

definition get_client :: "client_state \<Rightarrow> client_state" where
  "get_client s =
     (case http_client s of
        None \<Rightarrow> s\<lparr>http_client := Some False\<rparr>
      | Some closed \<Rightarrow> if closed then s\<lparr>http_client := Some False\<rparr> else s)"

text \<open>One HTTP request: it is logged, and the upstream decides the outcome.\<close>

definition send :: "env \<Rightarrow> client_state \<Rightarrow> request \<Rightarrow> (error + response) \<times> client_state" where
  "send E s r =
     (case upstream E (calls s) r of
        Failed \<Rightarrow> Inl RequestError
      | Answered a \<Rightarrow> Inr a,
      s\<lparr>calls := calls s @ [r]\<rparr>)"

text \<open>
  Modelled from the spec: httpx is not part of the repository; the spec says every
  method raises on a non-2xx status.
\<close>

definition raise_for_status :: "response \<Rightarrow> error + unit" where
  "raise_for_status a =
     (if 200 \<le> status_code a \<and> status_code a < 300 then Inr ()
      else Inl (HTTPStatusError (status_code a)))"

definition response_json :: "response \<Rightarrow> error + json" where
  "response_json a = (case json_body a of None \<Rightarrow> Inl JSONDecodeError | Some j \<Rightarrow> Inr j)"

text \<open>Python truthiness of an \<open>Optional[str]\<close> and of an \<open>Optional[bytes]\<close>.\<close>

fun truthy :: "'a list option \<Rightarrow> bool" where
  "truthy None = False"
| "truthy (Some xs) = (xs \<noteq> [])"

text \<open>\<open>_get_headers\<close>: the headers every request of the client carries.\<close>

definition WahaClient_get_headers :: "env \<Rightarrow> (string \<times> string) list" where
  "WahaClient_get_headers E =
     [(''Content-Type'', ''application/json''), (''Accept'', ''application/json'')] @
     (if truthy (api_key E) then [(''Authorization'', ''Bearer '' @ the (api_key E))] else [])"

definition WahaClient_ping :: "env \<Rightarrow> client_state \<Rightarrow> bool \<times> client_state" where
  "WahaClient_ping E s =
     (case send E (get_client s) \<lparr>verb = GET, url = base_url E @ ''/ping'',
                                  headers = WahaClient_get_headers E,
                                  body = NoBody\<rparr> of
        (Inl e, s') \<Rightarrow> (False, s')
      | (Inr a, s') \<Rightarrow>
          (case raise_for_status a of Inl e \<Rightarrow> (False, s') | Inr u \<Rightarrow> (True, s')))"

subsection \<open>The client's pydantic models\<close>

text \<open>
  \<open>Model(**data)\<close> raises \<open>TypeError\<close> when \<open>data\<close> is not a dict, and pydantic's
  \<open>ValidationError\<close> when a required field is missing or a field has the wrong type
  (pydantic 2: a \<open>str\<close> field takes only a string). Keys that are not fields are ignored.
\<close>

definition get_str :: "(string \<times> json) list \<Rightarrow> string \<Rightarrow> string option" where
  "get_str kw k = (case map_of kw k of Some (JStr v) \<Rightarrow> Some v | _ \<Rightarrow> None)"

text \<open>An \<open>Optional[str]\<close> field with default \<open>None\<close>: the outer option is validity.\<close>

definition get_opt_str :: "(string \<times> json) list \<Rightarrow> string \<Rightarrow> string option option" where
  "get_opt_str kw k =
     (case map_of kw k of
        None \<Rightarrow> Some None
      | Some JNull \<Rightarrow> Some None
      | Some (JStr v) \<Rightarrow> Some (Some v)
      | Some _ \<Rightarrow> None)"

definition get_opt_datetime ::
  "env \<Rightarrow> (string \<times> json) list \<Rightarrow> string \<Rightarrow> datetime option option" where
  "get_opt_datetime E kw k =
     (case map_of kw k of
        None \<Rightarrow> Some None
      | Some JNull \<Rightarrow> Some None
      | Some v \<Rightarrow> (case parse_datetime E v of None \<Rightarrow> None | Some d \<Rightarrow> Some (Some d)))"

text \<open>A \<open>Dict[str, Any]\<close> field with \<open>default_factory=dict\<close>.\<close>

definition get_dict :: "(string \<times> json) list \<Rightarrow> string \<Rightarrow> (string \<times> json) list option" where
  "get_dict kw k =
     (case map_of kw k of None \<Rightarrow> Some [] | Some (JObj d) \<Rightarrow> Some d | Some _ \<Rightarrow> None)"

fun all_str :: "json list \<Rightarrow> string list option" where
  "all_str [] = Some []"
| "all_str (JStr v # js) = (case all_str js of None \<Rightarrow> None | Some vs \<Rightarrow> Some (v # vs))"
| "all_str (_ # js) = None"

text \<open>A \<open>List[str]\<close> field with \<open>default_factory=list\<close>.\<close>

definition get_str_list :: "(string \<times> json) list \<Rightarrow> string \<Rightarrow> string list option" where
  "get_str_list kw k =
     (case map_of kw k of None \<Rightarrow> Some [] | Some (JArr js) \<Rightarrow> all_str js | Some _ \<Rightarrow> None)"

text \<open>The names of the fields whose check failed, in declaration order.\<close>

definition offending :: "(string \<times> bool) list \<Rightarrow> string list" where
  "offending checks = map fst (filter (\<lambda>c. \<not> snd c) checks)"

record WahaSession =
  ws_id :: string
  ws_name :: string
  ws_status :: string
  ws_config :: "(string \<times> json) list"
  ws_created_at :: "datetime option"
  ws_updated_at :: "datetime option"

definition WahaSession_init :: "env \<Rightarrow> json \<Rightarrow> error + WahaSession" where
  "WahaSession_init E data =
     (case data of
        JObj kw \<Rightarrow>
          (case (get_str kw ''id'', get_str kw ''name'', get_str kw ''status'',
                 get_dict kw ''config'', get_opt_datetime E kw ''created_at'',
                 get_opt_datetime E kw ''updated_at'') of
             (Some i, Some n, Some st, Some c, Some ca, Some ua) \<Rightarrow>
               Inr \<lparr>ws_id = i, ws_name = n, ws_status = st, ws_config = c,
                    ws_created_at = ca, ws_updated_at = ua\<rparr>
           | _ \<Rightarrow>
               Inl (ValidationError (offending
                 [(''id'', get_str kw ''id'' \<noteq> None),
                  (''name'', get_str kw ''name'' \<noteq> None),
                  (''status'', get_str kw ''status'' \<noteq> None),
                  (''config'', get_dict kw ''config'' \<noteq> None),
                  (''created_at'', get_opt_datetime E kw ''created_at'' \<noteq> None),
                  (''updated_at'', get_opt_datetime E kw ''updated_at'' \<noteq> None)])))
      | _ \<Rightarrow> Inl TypeError)"

text \<open>
  Reading an attribute of a \<open>WahaSession\<close> by name: a declared field gives its value,
  any other name raises \<open>AttributeError\<close>.
\<close>

datatype attribute =
    StrAttr string
  | DictAttr "(string \<times> json) list"
  | DatetimeAttr "datetime option"

definition WahaSession_getattr :: "WahaSession \<Rightarrow> string \<Rightarrow> error + attribute" where
  "WahaSession_getattr w a =
     (if a = ''id'' then Inr (StrAttr (ws_id w))
      else if a = ''name'' then Inr (StrAttr (ws_name w))
      else if a = ''status'' then Inr (StrAttr (ws_status w))
      else if a = ''config'' then Inr (DictAttr (ws_config w))
      else if a = ''created_at'' then Inr (DatetimeAttr (ws_created_at w))
      else if a = ''updated_at'' then Inr (DatetimeAttr (ws_updated_at w))
      else Inl (AttributeError a))"

record WahaGroup =
  wg_id :: string
  wg_name :: string
  wg_description :: "string option"
  wg_participants :: "string list"
  wg_created_at :: "datetime option"

definition WahaGroup_init :: "env \<Rightarrow> json \<Rightarrow> error + WahaGroup" where
  "WahaGroup_init E data =
     (case data of
        JObj kw \<Rightarrow>
          (case (get_str kw ''id'', get_str kw ''name'', get_opt_str kw ''description'',
                 get_str_list kw ''participants'', get_opt_datetime E kw ''created_at'') of
             (Some i, Some n, Some d, Some ps, Some ca) \<Rightarrow>
               Inr \<lparr>wg_id = i, wg_name = n, wg_description = d, wg_participants = ps,
                    wg_created_at = ca\<rparr>
           | _ \<Rightarrow>
               Inl (ValidationError (offending
                 [(''id'', get_str kw ''id'' \<noteq> None),
                  (''name'', get_str kw ''name'' \<noteq> None),
                  (''description'', get_opt_str kw ''description'' \<noteq> None),
                  (''participants'', get_str_list kw ''participants'' \<noteq> None),
                  (''created_at'', get_opt_datetime E kw ''created_at'' \<noteq> None)])))
      | _ \<Rightarrow> Inl TypeError)"

subsection \<open>The client's operations\<close>

text \<open>
  Each operation runs inside \<open>try ... except Exception: log; raise\<close>, so an error leaves
  the operation as it arose. The state returned is the one reached when the operation
  returned or raised.
\<close>

definition WahaClient_get_session_status ::
  "env \<Rightarrow> client_state \<Rightarrow> string \<Rightarrow> (error + WahaSession option) \<times> client_state" where
  "WahaClient_get_session_status E s session_name =
     (case send E (get_client s)
             \<lparr>verb = GET, url = base_url E @ ''/api/sessions/'' @ session_name,
              headers = WahaClient_get_headers E,
              body = NoBody\<rparr> of
        (Inl e, s') \<Rightarrow> (Inl e, s')
      | (Inr a, s') \<Rightarrow>
          (if status_code a = 404 then (Inr None, s')
           else (case raise_for_status a of
                   Inl e \<Rightarrow> (Inl e, s')
                 | Inr u \<Rightarrow>
                     (case response_json a of
                        Inl e \<Rightarrow> (Inl e, s')
                      | Inr j \<Rightarrow>
                          (case WahaSession_init E j of
                             Inl e \<Rightarrow> (Inl e, s')
                           | Inr w \<Rightarrow> (Inr (Some w), s'))))))"

definition send_message_payload :: "string \<Rightarrow> string \<Rightarrow> string option \<Rightarrow> json" where
  "send_message_payload chat_id message quoted_message_id =
     JObj ([(''chatId'', JStr chat_id), (''message'', JStr message)] @
           (if truthy quoted_message_id
            then [(''quotedMessageId'', JStr (the quoted_message_id))] else []))"

definition WahaClient_send_message ::
  "env \<Rightarrow> client_state \<Rightarrow> string \<Rightarrow> string \<Rightarrow> string \<Rightarrow> string option \<Rightarrow>
   (error + json) \<times> client_state" where
  "WahaClient_send_message E s session_name chat_id message quoted_message_id =
     (case send E (get_client s)
             \<lparr>verb = POST,
              url = base_url E @ ''/api/sessions/'' @ session_name @ ''/send/text'',
              headers = WahaClient_get_headers E,
              body = JsonBody (send_message_payload chat_id message quoted_message_id)\<rparr> of
        (Inl e, s') \<Rightarrow> (Inl e, s')
      | (Inr a, s') \<Rightarrow>
          (case raise_for_status a of
             Inl e \<Rightarrow> (Inl e, s')
           | Inr u \<Rightarrow> (response_json a, s')))"

text \<open>
  \<open>send_file\<close>. The path, when given, is read first and its bytes replace
  \<open>file_content\<close> (a \<open>Path\<close> is always truthy; a file that cannot be opened raises
  \<open>OSError\<close>). Then the three sources are told apart by truthiness.
\<close>

definition read_source :: "env \<Rightarrow> string option \<Rightarrow> bytes option \<Rightarrow> error + bytes option" where
  "read_source E file_path file_content =
     (case file_path of
        None \<Rightarrow> Inr file_content
      | Some p \<Rightarrow> (case file_system E p of None \<Rightarrow> Inl (OSError p) | Some b \<Rightarrow> Inr (Some b)))"

text \<open>\<open>filename or "file"\<close>.\<close>

definition filename_or_file :: "string option \<Rightarrow> string" where
  "filename_or_file filename = (if truthy filename then the filename else ''file'')"

text \<open>
  The request of the content branch: \<open>client.post(url, files=files, data=data)\<close>, sent
  with the client's headers like every other request.
\<close>

definition files_request ::
  "env \<Rightarrow> string \<Rightarrow> string \<Rightarrow> bytes \<Rightarrow> string option \<Rightarrow> string option \<Rightarrow> request" where
  "files_request E session_name chat_id file_content caption filename =
     \<lparr>verb = POST,
      url = base_url E @ ''/api/sessions/'' @ session_name @ ''/send/file'',
      headers = WahaClient_get_headers E,
      body = FilesBody
               [(''file'', filename_or_file filename, file_content)]
               ([(''chatId'', chat_id)] @
                (if truthy caption then [(''caption'', the caption)] else []))\<rparr>"

definition opt_str_json :: "string option \<Rightarrow> json" where
  "opt_str_json v = (case v of None \<Rightarrow> JNull | Some x \<Rightarrow> JStr x)"

definition url_request ::
  "env \<Rightarrow> string \<Rightarrow> string \<Rightarrow> string \<Rightarrow> string option \<Rightarrow> string option \<Rightarrow> request" where
  "url_request E session_name chat_id file_url caption filename =
     \<lparr>verb = POST,
      url = base_url E @ ''/api/sessions/'' @ session_name @ ''/send/file'',
      headers = WahaClient_get_headers E,
      body = JsonBody (JObj [(''chatId'', JStr chat_id), (''url'', JStr file_url),
                             (''caption'', opt_str_json caption),
                             (''filename'', opt_str_json filename)])\<rparr>"

definition post_and_decode :: "env \<Rightarrow> client_state \<Rightarrow> request \<Rightarrow> (error + json) \<times> client_state" where
  "post_and_decode E s r =
     (case send E s r of
        (Inl e, s') \<Rightarrow> (Inl e, s')
      | (Inr a, s') \<Rightarrow>
          (case raise_for_status a of
             Inl e \<Rightarrow> (Inl e, s')
           | Inr u \<Rightarrow> (response_json a, s')))"

definition WahaClient_send_file ::
  "env \<Rightarrow> client_state \<Rightarrow> string \<Rightarrow> string \<Rightarrow> string option \<Rightarrow> bytes option \<Rightarrow>
   string option \<Rightarrow> string option \<Rightarrow> string option \<Rightarrow> (error + json) \<times> client_state" where
  "WahaClient_send_file E s session_name chat_id file_path file_content file_url caption filename =
     (case read_source E file_path file_content of
        Inl e \<Rightarrow> (Inl e, get_client s)
      | Inr fc \<Rightarrow>
          (if truthy fc then
             post_and_decode E (get_client s)
               (files_request E session_name chat_id (the fc) caption filename)
           else if truthy file_url then
             post_and_decode E (get_client s)
               (url_request E session_name chat_id (the file_url) caption filename)
           else
             (Inl (ValueError ''Must provide file_path, file_content, or file_url''),
              get_client s)))"

definition WahaClient_download_file ::
  "env \<Rightarrow> client_state \<Rightarrow> string \<Rightarrow> string \<Rightarrow> (error + bytes) \<times> client_state" where
  "WahaClient_download_file E s session_name message_id =
     (case send E (get_client s)
             \<lparr>verb = GET,
              url = base_url E @ ''/api/sessions/'' @ session_name @ ''/messages/'' @
                    message_id @ ''/download'',
              headers = WahaClient_get_headers E,
              body = NoBody\<rparr> of
        (Inl e, s') \<Rightarrow> (Inl e, s')
      | (Inr a, s') \<Rightarrow>
          (case raise_for_status a of
             Inl e \<Rightarrow> (Inl e, s')
           | Inr u \<Rightarrow> (Inr (content a), s')))"

text \<open>
  \<open>[WahaGroup(**group) for group in groups_data]\<close>: the first element that does not
  validate raises.
\<close>

fun WahaGroup_list :: "env \<Rightarrow> json list \<Rightarrow> error + WahaGroup list" where
  "WahaGroup_list E [] = Inr []"
| "WahaGroup_list E (j # js) =
     (case WahaGroup_init E j of
        Inl e \<Rightarrow> Inl e
      | Inr g \<Rightarrow> (case WahaGroup_list E js of Inl e \<Rightarrow> Inl e | Inr gs \<Rightarrow> Inr (g # gs)))"

text \<open>
  \<open>len(groups_data)\<close> and the comprehension over a decoded body: a list is validated
  element by element; an empty dict or string gives no groups and a non-empty one offers
  its keys or characters to \<open>WahaGroup(**...)\<close>, a \<open>TypeError\<close>; anything else has no
  \<open>len\<close>.
\<close>

fun groups_of_json :: "env \<Rightarrow> json \<Rightarrow> error + WahaGroup list" where
  "groups_of_json E (JArr js) = WahaGroup_list E js"
| "groups_of_json E (JObj kw) = (if kw = [] then Inr [] else Inl TypeError)"
| "groups_of_json E (JStr v) = (if v = [] then Inr [] else Inl TypeError)"
| "groups_of_json E _ = Inl TypeError"

definition WahaClient_get_groups ::
  "env \<Rightarrow> client_state \<Rightarrow> string \<Rightarrow> (error + WahaGroup list) \<times> client_state" where
  "WahaClient_get_groups E s session_name =
     (case send E (get_client s)
             \<lparr>verb = GET, url = base_url E @ ''/api/sessions/'' @ session_name @ ''/groups'',
              headers = WahaClient_get_headers E,
              body = NoBody\<rparr> of
        (Inl e, s') \<Rightarrow> (Inl e, s')
      | (Inr a, s') \<Rightarrow>
          (case raise_for_status a of
             Inl e \<Rightarrow> (Inl e, s')
           | Inr u \<Rightarrow>
               (case response_json a of
                  Inl e \<Rightarrow> (Inl e, s')
                | Inr j \<Rightarrow> (groups_of_json E j, s'))))"

section \<open>The response schemas (app/schemas/whatsapp.py)\<close>

text \<open>
  A schema is built by keyword: an argument is \<open>None\<close> when the call does not pass it
  (or passes \<open>None\<close>). A required field (\<open>Field(...)\<close>) that is not passed, or a
  \<open>str\<close> field given something that is not a string, makes the construction raise
  \<open>ValidationError\<close>.
\<close>

record SessionResponse =
  sr_id :: string
  sr_name :: string
  sr_status :: string
  sr_config :: "(string \<times> json) list option"
  sr_created_at :: "datetime option"

definition SessionResponse_init ::
  "string option \<Rightarrow> string option \<Rightarrow> string option \<Rightarrow> (string \<times> json) list option \<Rightarrow>
   datetime option \<Rightarrow> error + SessionResponse" where
  "SessionResponse_init i n st c ca =
     (case (i, n, st) of
        (Some i', Some n', Some st') \<Rightarrow>
          Inr \<lparr>sr_id = i', sr_name = n', sr_status = st', sr_config = c, sr_created_at = ca\<rparr>
      | _ \<Rightarrow>
          Inl (ValidationError (offending
            [(''id'', i \<noteq> None), (''name'', n \<noteq> None), (''status'', st \<noteq> None)])))"

record SessionStatusResponse =
  ssr_session :: SessionResponse
  ssr_connected :: bool
  ssr_phone :: "string option"

definition SessionStatusResponse_init ::
  "SessionResponse option \<Rightarrow> bool option \<Rightarrow> string option \<Rightarrow> error + SessionStatusResponse" where
  "SessionStatusResponse_init r c p =
     (case (r, c) of
        (Some r', Some c') \<Rightarrow> Inr \<lparr>ssr_session = r', ssr_connected = c', ssr_phone = p\<rparr>
      | _ \<Rightarrow>
          Inl (ValidationError (offending [(''session'', r \<noteq> None), (''connected'', c \<noteq> None)])))"

definition str_arg :: "json option \<Rightarrow> string option" where
  "str_arg a = (case a of Some (JStr v) \<Rightarrow> Some v | _ \<Rightarrow> None)"

record MessageResponse =
  mr_id :: string
  mr_chat_id :: string
  mr_status :: string
  mr_timestamp :: datetime

definition MessageResponse_init ::
  "json option \<Rightarrow> json option \<Rightarrow> json option \<Rightarrow> datetime option \<Rightarrow> error + MessageResponse" where
  "MessageResponse_init i c st t =
     (case (str_arg i, str_arg c, str_arg st, t) of
        (Some i', Some c', Some st', Some t') \<Rightarrow>
          Inr \<lparr>mr_id = i', mr_chat_id = c', mr_status = st', mr_timestamp = t'\<rparr>
      | _ \<Rightarrow>
          Inl (ValidationError (offending
            [(''id'', str_arg i \<noteq> None), (''chat_id'', str_arg c \<noteq> None),
             (''status'', str_arg st \<noteq> None), (''timestamp'', t \<noteq> None)])))"

record HealthResponse =
  hr_status :: string
  hr_waha_connected :: bool
  hr_timestamp :: datetime

text \<open>\<open>timestamp\<close> has \<open>default_factory=datetime.utcnow\<close>.\<close>

definition HealthResponse_init ::
  "env \<Rightarrow> string option \<Rightarrow> bool option \<Rightarrow> datetime option \<Rightarrow> error + HealthResponse" where
  "HealthResponse_init E st c t =
     (case (st, c) of
        (Some st', Some c') \<Rightarrow>
          Inr \<lparr>hr_status = st', hr_waha_connected = c',
               hr_timestamp = (case t of None \<Rightarrow> utcnow E | Some t' \<Rightarrow> t')\<rparr>
      | _ \<Rightarrow>
          Inl (ValidationError (offending
            [(''status'', st \<noteq> None), (''waha_connected'', c \<noteq> None)])))"

section \<open>The controllers (app/controllers)\<close>

text \<open>
  \<open>str.upper()\<close> on the characters of a \<open>string\<close>: the letters \<open>a\<close> to \<open>z\<close> are
  raised, every other character is left as it is. This is Python's mapping on ASCII
  text; \<open>char\<close> has 256 values, so a status is read as a string of single-byte
  characters and the case pairs outside ASCII are not modelled.
\<close>

definition upper_char :: "char \<Rightarrow> char" where
  "upper_char c =
     (if 97 \<le> (of_char c :: nat) \<and> (of_char c :: nat) \<le> 122
      then char_of ((of_char c :: nat) - 32) else c)"

definition upper :: "string \<Rightarrow> string" where
  "upper = map upper_char"

definition connected_statuses :: "string list" where
  "connected_statuses = [''STARTED'', ''CONNECTED'', ''READY'']"

definition SessionController_get_session_status ::
  "env \<Rightarrow> client_state \<Rightarrow> string \<Rightarrow> (error + SessionStatusResponse) \<times> client_state" where
  "SessionController_get_session_status E s session_name =
     (case WahaClient_get_session_status E s session_name of
        (Inl e, s') \<Rightarrow> (Inl e, s')
      | (Inr None, s') \<Rightarrow>
          (case SessionResponse_init (Some session_name) (Some session_name)
                  (Some ''NOT_FOUND'') None None of
             Inl e \<Rightarrow> (Inl e, s')
           | Inr r \<Rightarrow> (SessionStatusResponse_init (Some r) (Some False) None, s'))
      | (Inr (Some w), s') \<Rightarrow>
          (case SessionResponse_init (Some (ws_id w)) (Some (ws_name w)) (Some (ws_status w))
                  (Some (ws_config w)) (ws_created_at w) of
             Inl e \<Rightarrow> (Inl e, s')
           | Inr r \<Rightarrow>
               (SessionStatusResponse_init (Some r)
                  (Some (upper (ws_status w) \<in> set connected_statuses)) None, s')))"

text \<open>
  \<open>list_sessions\<close> asks for the status of the session named \<open>""\<close> and, when one is found,
  reads its attribute \<open>session\<close>.
\<close>

definition SessionController_list_sessions ::
  "env \<Rightarrow> client_state \<Rightarrow> (error + attribute list) \<times> client_state" where
  "SessionController_list_sessions E s =
     (case WahaClient_get_session_status E s '''' of
        (Inl e, s') \<Rightarrow> (Inl e, s')
      | (Inr None, s') \<Rightarrow> (Inr [], s')
      | (Inr (Some w), s') \<Rightarrow>
          (case WahaSession_getattr w ''session'' of
             Inl e \<Rightarrow> (Inl e, s')
           | Inr v \<Rightarrow> (Inr [v], s')))"

definition SessionController_check_connection ::
  "env \<Rightarrow> client_state \<Rightarrow> string \<Rightarrow> (error + (string \<times> bool) list) \<times> client_state" where
  "SessionController_check_connection E s session_name =
     (case WahaClient_get_session_status E s session_name of
        (Inl e, s') \<Rightarrow> (Inl e, s')
      | (Inr session, s') \<Rightarrow>
          (Inr [(''connected'',
                 (case session of
                    None \<Rightarrow> False
                  | Some w \<Rightarrow> upper (ws_status w) \<in> set connected_statuses))], s'))"

text \<open>\<open>result.get(key, default)\<close> on a decoded body: only a dict has \<open>get\<close>.\<close>

definition dict_get :: "json \<Rightarrow> string \<Rightarrow> json \<Rightarrow> error + json" where
  "dict_get result k d =
     (case result of
        JObj kw \<Rightarrow> Inr (case map_of kw k of None \<Rightarrow> d | Some v \<Rightarrow> v)
      | _ \<Rightarrow> Inl (AttributeError ''get''))"

definition MessageController_send_message ::
  "env \<Rightarrow> client_state \<Rightarrow> string \<Rightarrow> string \<Rightarrow> string \<Rightarrow> string option \<Rightarrow>
   (error + MessageResponse) \<times> client_state" where
  "MessageController_send_message E s session_name chat_id message quoted_message_id =
     (case WahaClient_send_message E s session_name chat_id message quoted_message_id of
        (Inl e, s') \<Rightarrow> (Inl e, s')
      | (Inr result, s') \<Rightarrow>
          (case dict_get result ''id'' (JStr '''') of
             Inl e \<Rightarrow> (Inl e, s')
           | Inr i \<Rightarrow>
               (case dict_get result ''status'' (JStr ''sent'') of
                  Inl e \<Rightarrow> (Inl e, s')
                | Inr st \<Rightarrow>
                    (MessageResponse_init (Some i) (Some (JStr chat_id)) (Some st) None, s'))))"

text \<open>The values of the dict \<open>get_group_details\<close> returns.\<close>

datatype pyval =
    PNone
  | PStr string
  | PList "pyval list"
  | PDatetime datetime

definition group_dict :: "WahaGroup \<Rightarrow> (string \<times> pyval) list" where
  "group_dict g =
     [(''id'', PStr (wg_id g)),
      (''name'', PStr (wg_name g)),
      (''description'', (case wg_description g of None \<Rightarrow> PNone | Some d \<Rightarrow> PStr d)),
      (''participants'', PList (map PStr (wg_participants g))),
      (''created_at'', (case wg_created_at g of None \<Rightarrow> PNone | Some t \<Rightarrow> PDatetime t))]"

text \<open>The scan \<open>for group in groups: if group.id == group_id: return ...\<close> and its fall-through.\<close>

fun scan_groups :: "string \<Rightarrow> WahaGroup list \<Rightarrow> (string \<times> pyval) list" where
  "scan_groups group_id [] = [(''error'', PStr ''Group not found'')]"
| "scan_groups group_id (g # gs) =
     (if wg_id g = group_id then group_dict g else scan_groups group_id gs)"

definition GroupController_get_group_details ::
  "env \<Rightarrow> client_state \<Rightarrow> string \<Rightarrow> string \<Rightarrow>
   (error + (string \<times> pyval) list) \<times> client_state" where
  "GroupController_get_group_details E s session_name group_id =
     (case WahaClient_get_groups E s session_name of
        (Inl e, s') \<Rightarrow> (Inl e, s')
      | (Inr groups, s') \<Rightarrow> (Inr (scan_groups group_id groups), s'))"

subsection \<open>Base64\<close>

definition b64_alphabet :: string where
  "b64_alphabet = ''ABCDEFGHIJKLMNOPQRSTUVWXYZabcdefghijklmnopqrstuvwxyz0123456789+/''"

definition b64_char :: "nat \<Rightarrow> char" where
  "b64_char n = b64_alphabet ! n"

text \<open>
  Modelled from the spec: Python's \<open>base64\<close> module is not part of the repository; the
  spec says the raw bytes are re-encoded as base64 text. This is
  \<open>base64.b64encode(data).decode("utf-8")\<close> after RFC 4648: three bytes become four
  characters of the alphabet, a last group of one or two bytes is padded with \<open>=\<close>.
  The encoder emits ASCII only, which UTF-8 decodes character by character.
\<close>

fun b64encode :: "bytes \<Rightarrow> string" where
  "b64encode [] = []"
| "b64encode [x] =
     [b64_char (unat x div 4), b64_char (unat x mod 4 * 16), CHR ''='', CHR ''='']"
| "b64encode [x, y] =
     [b64_char (unat x div 4), b64_char (unat x mod 4 * 16 + unat y div 16),
      b64_char (unat y mod 16 * 4), CHR ''='']"
| "b64encode (x # y # z # rest) =
     b64_char (unat x div 4) # b64_char (unat x mod 4 * 16 + unat y div 16) #
     b64_char (unat y mod 16 * 4 + unat z div 64) # b64_char (unat z mod 64) #
     b64encode rest"

definition b64_index :: "char \<Rightarrow> nat option" where
  "b64_index c = map_of (zip b64_alphabet [0..<64]) c"

text \<open>
  Modelled from the spec: the base64 decoding the spec speaks of, which a reader of the
  record applies (\<open>base64.b64decode\<close> on well-formed input):
  four characters give three bytes, a final group may end in \<open>=\<close> or \<open>==\<close>; a character
  outside the alphabet or a length that is not a multiple of four gives \<open>None\<close>.
\<close>

fun b64decode :: "string \<Rightarrow> bytes option" where
  "b64decode [] = Some []"
| "b64decode (c1 # c2 # c3 # c4 # rest) =
     (if c3 = CHR ''='' \<and> c4 = CHR ''='' \<and> rest = [] then
        (case (b64_index c1, b64_index c2) of
           (Some a, Some b) \<Rightarrow> Some [of_nat (a * 4 + b div 16)]
         | _ \<Rightarrow> None)
      else if c4 = CHR ''='' \<and> rest = [] then
        (case (b64_index c1, b64_index c2, b64_index c3) of
           (Some a, Some b, Some c) \<Rightarrow>
             Some [of_nat (a * 4 + b div 16), of_nat (b mod 16 * 16 + c div 4)]
         | _ \<Rightarrow> None)
      else
        (case (b64_index c1, b64_index c2, b64_index c3, b64_index c4) of
           (Some a, Some b, Some c, Some d) \<Rightarrow>
             (case b64decode rest of
                None \<Rightarrow> None
              | Some bs \<Rightarrow>
                  Some (of_nat (a * 4 + b div 16) # of_nat (b mod 16 * 16 + c div 4) #
                        of_nat (c mod 4 * 64 + d) # bs))
         | _ \<Rightarrow> None))"
| "b64decode _ = None"

definition FileController_download_file ::
  "env \<Rightarrow> client_state \<Rightarrow> string \<Rightarrow> string \<Rightarrow>
   (error + (string \<times> string) list) \<times> client_state" where
  "FileController_download_file E s session_name message_id =
     (case WahaClient_download_file E s session_name message_id of
        (Inl e, s') \<Rightarrow> (Inl e, s')
      | (Inr file_content, s') \<Rightarrow>
          (Inr [(''file'', b64encode file_content), (''message_id'', message_id)], s'))"

section \<open>The routes (app/routes)\<close>

text \<open>
  \<open>POST /messages/send/{session_name}\<close>: any exception of the controller is turned into
  \<open>HTTPException(status_code=500, detail=str(e))\<close>.
\<close>

definition route_send_message ::
  "env \<Rightarrow> client_state \<Rightarrow> string \<Rightarrow> string \<Rightarrow> string \<Rightarrow> string option \<Rightarrow>
   (error + MessageResponse) \<times> client_state" where
  "route_send_message E s session_name chat_id message quoted_message_id =
     (case MessageController_send_message E s session_name chat_id message quoted_message_id of
        (Inl e, s') \<Rightarrow> (Inl (HTTPException 500 e), s')
      | (Inr r, s') \<Rightarrow> (Inr r, s'))"

text \<open>
  The handler of \<open>GET /health\<close>, as a function of the client passed to it:
  \<open>async def health_check(waha_client: WahaClient)\<close>.
\<close>

definition health_check :: "env \<Rightarrow> client_state \<Rightarrow> (error + HealthResponse) \<times> client_state" where
  "health_check E s =
     (case WahaClient_ping E s of
        (waha_connected, s') \<Rightarrow>
          (HealthResponse_init E (Some (if waha_connected then ''healthy'' else ''degraded''))
             (Some waha_connected) (Some (utcnow E)), s'))"

text \<open>
  The status code FastAPI answers with: 200 for a handler that returns (neither route
  sets another), the code of an \<open>HTTPException\<close>, and 500 from the application's
  handler for any other exception.
\<close>

fun http_status :: "error + 'a \<Rightarrow> nat" where
  "http_status (Inr r) = 200"
| "http_status (Inl (HTTPException code e)) = code"
| "http_status (Inl e) = 500"

subsection \<open>Declaring a route\<close>

text \<open>
  When \<open>@router.get\<close> or \<open>@router.post\<close> runs, FastAPI goes through the handler's
  parameters. One whose default is \<open>Depends(...)\<close> is injected. Any other is read from
  the request: its annotation must be a scalar (\<open>str\<close>, \<open>Optional[str]\<close>: a path or
  query parameter) or a pydantic model (the body); for an annotation that is neither,
  an ordinary class, declaring the route raises \<open>FastAPIError\<close>.
\<close>

datatype annotation = ScalarType | ModelType | PlainClass string

record parameter =
  par_name :: string
  par_annotation :: annotation
  par_depends :: bool

definition declare_parameter :: "parameter \<Rightarrow> error + unit" where
  "declare_parameter p =
     (if par_depends p then Inr ()
      else (case par_annotation p of
              PlainClass c \<Rightarrow> Inl (FastAPIError c)
            | _ \<Rightarrow> Inr ()))"

fun declare_route :: "parameter list \<Rightarrow> error + unit" where
  "declare_route [] = Inr ()"
| "declare_route (p # ps) =
     (case declare_parameter p of Inl e \<Rightarrow> Inl e | Inr u \<Rightarrow> declare_route ps)"

text \<open>
  The parameters of the two handlers as the source declares them:
  \<open>send_message(session_name: str, chat_id: str = Query(...), message: str = Query(...),
  quoted_message_id: Optional[str] = Query(None), controller: MessageController =
  Depends(get_message_controller))\<close> and \<open>health_check(waha_client: WahaClient)\<close>.
\<close>

definition send_message_parameters :: "parameter list" where
  "send_message_parameters =
     [\<lparr>par_name = ''session_name'', par_annotation = ScalarType, par_depends = False\<rparr>,
      \<lparr>par_name = ''chat_id'', par_annotation = ScalarType, par_depends = False\<rparr>,
      \<lparr>par_name = ''message'', par_annotation = ScalarType, par_depends = False\<rparr>,
      \<lparr>par_name = ''quoted_message_id'', par_annotation = ScalarType, par_depends = False\<rparr>,
      \<lparr>par_name = ''controller'', par_annotation = PlainClass ''MessageController'',
       par_depends = True\<rparr>]"

definition health_check_parameters :: "parameter list" where
  "health_check_parameters =
     [\<lparr>par_name = ''waha_client'', par_annotation = PlainClass ''WahaClient'',
       par_depends = False\<rparr>]"

text \<open>
  \<open>GET /health\<close> as the application serves it: the route has to be declared (which
  happens when \<open>app.routes.health\<close> is imported) before the handler can run. \<open>Inl\<close> is
  the error of the declaration: no request is ever answered.
\<close>

definition get_health ::
  "env \<Rightarrow> client_state \<Rightarrow> error + ((error + HealthResponse) \<times> client_state)" where
  "get_health E s =
     (case declare_route health_check_parameters of
        Inl e \<Rightarrow> Inl e
      | Inr u \<Rightarrow> Inr (health_check E s))"

section \<open>The spec's reading of a connected session\<close>

text \<open>
  The spec says: connected holds iff the session exists and its status, case-folded, is
  one of started, connected, ready. \<open>casefold\<close> lowers the letters \<open>A\<close> to \<open>Z\<close> and
  leaves every other character as it is; \<open>spec_connected\<close> follows the spec's sentence.
\<close>

definition lower_char :: "char \<Rightarrow> char" where
  "lower_char c =
     (if 65 \<le> (of_char c :: nat) \<and> (of_char c :: nat) \<le> 90
      then char_of ((of_char c :: nat) + 32) else c)"

definition casefold :: "string \<Rightarrow> string" where
  "casefold = map lower_char"

definition spec_connected :: "WahaSession option \<Rightarrow> bool" where
  "spec_connected session =
     (case session of
        None \<Rightarrow> False
      | Some w \<Rightarrow> casefold (ws_status w) \<in> set [''started'', ''connected'', ''ready''])"

section \<open>Sample worlds\<close>

text \<open>
  A world with a given upstream: no API key, no local files, a datetime parser that accepts nothing,
  the clock at zero; and a client that has not been used yet.
\<close>

definition world :: "(request list \<Rightarrow> request \<Rightarrow> http_outcome) \<Rightarrow> env" where
  "world u =
     \<lparr>base_url = ''http://waha:3000'', api_key = None, upstream = u,
      file_system = (\<lambda>p. None),
      parse_datetime = (\<lambda>j. None), utcnow = Datetime 0\<rparr>"

definition fresh :: client_state where
  "fresh = \<lparr>http_client = None, calls = []\<rparr>"

text \<open>An upstream that gives every request the same answer.\<close>

definition always :: "nat \<Rightarrow> bytes \<Rightarrow> json option \<Rightarrow> request list \<Rightarrow> request \<Rightarrow> http_outcome" where
  "always code raw j log r = Answered \<lparr>status_code = code, content = raw, json_body = j\<rparr>"

section \<open>Facts about the client\<close>

lemma calls_get_client: "calls (get_client s) = calls s"
  by (simp add: get_client_def split: option.split)

lemma send_logs_one: "calls (snd (send E s r)) = calls s @ [r]"
  by (simp add: send_def)

lemma fst_send:
  "fst (send E s r) = (case upstream E (calls s) r of Failed \<Rightarrow> Inl RequestError | Answered a \<Rightarrow> Inr a)"
  by (simp add: send_def)

lemma post_and_decode_logs_one: "calls (snd (post_and_decode E s r)) = calls s @ [r]"
  by (simp add: post_and_decode_def send_def split: http_outcome.split sum.split)

section \<open>Facts about case mapping\<close>

lemma of_char_upper_char:
  "(of_char (upper_char c) :: nat) =
     (if 97 \<le> (of_char c :: nat) \<and> (of_char c :: nat) \<le> 122 then of_char c - 32 else of_char c)"
  by (auto simp add: upper_char_def)

lemma of_char_lower_char:
  "(of_char (lower_char c) :: nat) =
     (if 65 \<le> (of_char c :: nat) \<and> (of_char c :: nat) \<le> 90 then of_char c + 32 else of_char c)"
  by (auto simp add: lower_char_def)

lemma upper_lower_char: "upper_char (lower_char c) = upper_char c"
  by (rule of_char_eqI [where ?'a = nat]) (auto simp add: of_char_upper_char of_char_lower_char)

lemma lower_upper_char: "lower_char (upper_char c) = lower_char c"
  by (rule of_char_eqI [where ?'a = nat]) (auto simp add: of_char_upper_char of_char_lower_char)

lemma upper_casefold: "upper (casefold v) = upper v"
  by (simp add: upper_def casefold_def upper_lower_char)

lemma casefold_upper: "casefold (upper v) = casefold v"
  by (simp add: upper_def casefold_def lower_upper_char)

lemma upper_words:
  "upper ''started'' = ''STARTED''" "upper ''connected'' = ''CONNECTED''"
  "upper ''ready'' = ''READY''"
  by (simp_all add: upper_def upper_char_def char_of_eq_iff)

lemma casefold_words:
  "casefold ''STARTED'' = ''started''" "casefold ''CONNECTED'' = ''connected''"
  "casefold ''READY'' = ''ready''"
  by (simp_all add: casefold_def lower_char_def char_of_eq_iff)

lemma upper_eq_iff_casefold_eq:
  assumes "upper l = u" and "casefold u = l"
  shows "upper v = u \<longleftrightarrow> casefold v = l"
proof
  assume "upper v = u"
  then have "casefold (upper v) = l" using assms(2) by simp
  then show "casefold v = l" by (simp only: casefold_upper)
next
  assume "casefold v = l"
  then have "upper (casefold v) = u" using assms(1) by simp
  then show "upper v = u" by (simp only: upper_casefold)
qed

lemma upper_in_connected_statuses:
  "upper v \<in> set connected_statuses \<longleftrightarrow>
   casefold v \<in> set [''started'', ''connected'', ''ready'']"
  using upper_eq_iff_casefold_eq [OF upper_words(1) casefold_words(1), of v]
    upper_eq_iff_casefold_eq [OF upper_words(2) casefold_words(2), of v]
    upper_eq_iff_casefold_eq [OF upper_words(3) casefold_words(3), of v]
  by (simp add: connected_statuses_def)
section \<open>Facts about Base64\<close>

lemma b64_alphabet_length: "length b64_alphabet = 64"
  by (simp add: b64_alphabet_def)

lemma b64_alphabet_distinct: "distinct b64_alphabet"
  by (simp add: b64_alphabet_def)

lemma b64_index_char: "n < 64 \<Longrightarrow> b64_index (b64_char n) = Some n"
  using map_of_zip_nth [of b64_alphabet "[0..<64]" n]
  by (simp add: b64_index_def b64_char_def b64_alphabet_length b64_alphabet_distinct)

lemma b64_char_not_pad: "n < 64 \<Longrightarrow> b64_char n \<noteq> CHR ''=''"
proof -
  assume "n < 64"
  then have "b64_char n \<in> set b64_alphabet"
    by (simp add: b64_char_def b64_alphabet_length)
  moreover have "CHR ''='' \<notin> set b64_alphabet"
    by (simp add: b64_alphabet_def)
  ultimately show ?thesis by metis
qed

lemma sextet_bounds:
  fixes x y z :: nat
  assumes "x < 256" "y < 256" "z < 256"
  shows "x div 4 < 64" "x mod 4 * 16 < 64" "x mod 4 * 16 + y div 16 < 64"
    "y mod 16 * 4 < 64" "y mod 16 * 4 + z div 64 < 64" "z mod 64 < 64"
  using assms by arith+

lemma high_low:
  fixes a b :: nat
  shows "b < 16 \<Longrightarrow> (a * 16 + b) div 16 = a" "b < 16 \<Longrightarrow> (a * 16 + b) mod 16 = b"
    "b < 4 \<Longrightarrow> (a * 4 + b) div 4 = a" "b < 4 \<Longrightarrow> (a * 4 + b) mod 4 = b"
  by simp_all

lemma regroup:
  fixes x y z :: nat
  assumes "x < 256" "y < 256" "z < 256"
  shows "x div 4 * 4 + x mod 4 * 16 div 16 = x"
    "x div 4 * 4 + (x mod 4 * 16 + y div 16) div 16 = x"
    "(x mod 4 * 16 + y div 16) mod 16 * 16 + y mod 16 * 4 div 4 = y"
    "(x mod 4 * 16 + y div 16) mod 16 * 16 + (y mod 16 * 4 + z div 64) div 4 = y"
    "(y mod 16 * 4 + z div 64) mod 4 * 64 + z mod 64 = z"
proof -
  have y16: "y div 16 < 16" and z64: "z div 64 < 4"
    using assms by arith+
  show "x div 4 * 4 + x mod 4 * 16 div 16 = x" by simp
  show "x div 4 * 4 + (x mod 4 * 16 + y div 16) div 16 = x"
    using y16 by (simp add: high_low)
  show "(x mod 4 * 16 + y div 16) mod 16 * 16 + y mod 16 * 4 div 4 = y"
    using y16 by (simp add: high_low)
  show "(x mod 4 * 16 + y div 16) mod 16 * 16 + (y mod 16 * 4 + z div 64) div 4 = y"
    using y16 z64 by (simp add: high_low)
  show "(y mod 16 * 4 + z div 64) mod 4 * 64 + z mod 64 = z"
    using z64 by (simp add: high_low)
qed

lemma unat_byte_less: "unat (x :: byte) < 256"
  using unsigned_less [of x, where ?'a = nat] by simp

lemma byte_of_unat: "(of_nat (unat x) :: byte) = x"
  by simp

lemma b64decode_one: "b64decode (b64encode [x]) = Some [x]"
proof -
  let ?x = "unat x"
  have x: "?x < 256" by (rule unat_byte_less)
  have "b64decode (b64encode [x]) = Some [of_nat (?x div 4 * 4 + ?x mod 4 * 16 div 16)]"
    using sextet_bounds(1,2) [OF x x x] by (simp add: b64_index_char)
  then show ?thesis
    by (simp only: regroup(1) [OF x x x] byte_of_unat)
qed

lemma b64decode_two: "b64decode (b64encode [x, y]) = Some [x, y]"
proof -
  let ?x = "unat x" and ?y = "unat y"
  have x: "?x < 256" and y: "?y < 256" by (rule unat_byte_less)+
  have "b64decode (b64encode [x, y]) =
          Some [of_nat (?x div 4 * 4 + (?x mod 4 * 16 + ?y div 16) div 16),
                of_nat ((?x mod 4 * 16 + ?y div 16) mod 16 * 16 + ?y mod 16 * 4 div 4)]"
    using sextet_bounds(1,3,4) [OF x y y]
    by (simp add: b64_index_char b64_char_not_pad)
  then show ?thesis
    by (simp only: regroup(2,3) [OF x y y] byte_of_unat)
qed

lemma b64decode_three:
  "b64decode (b64encode (x # y # z # rest)) =
     (case b64decode (b64encode rest) of None \<Rightarrow> None | Some bs \<Rightarrow> Some (x # y # z # bs))"
proof -
  let ?x = "unat x" and ?y = "unat y" and ?z = "unat z"
  have x: "?x < 256" and y: "?y < 256" and z: "?z < 256" by (rule unat_byte_less)+
  have "b64decode (b64encode (x # y # z # rest)) =
          (case b64decode (b64encode rest) of
             None \<Rightarrow> None
           | Some bs \<Rightarrow>
               Some (of_nat (?x div 4 * 4 + (?x mod 4 * 16 + ?y div 16) div 16) #
                     of_nat ((?x mod 4 * 16 + ?y div 16) mod 16 * 16 +
                             (?y mod 16 * 4 + ?z div 64) div 4) #
                     of_nat ((?y mod 16 * 4 + ?z div 64) mod 4 * 64 + ?z mod 64) # bs))"
    using sextet_bounds(1,3,5,6) [OF x y z]
    by (simp add: b64_index_char b64_char_not_pad)
  then show ?thesis
    by (simp only: regroup(2,4,5) [OF x y z] byte_of_unat)
qed

lemma b64decode_b64encode: "b64decode (b64encode data) = Some data"
proof (induction data rule: b64encode.induct)
  case 1
  show ?case by simp
next
  case (2 x)
  show ?case by (rule b64decode_one)
next
  case (3 x y)
  show ?case by (rule b64decode_two)
next
  case (4 x y z rest)
  then show ?case by (simp only: b64decode_three option.case)
qed
section \<open>Session status\<close>

text \<open>
  C4. Whenever the upstream status call gives a result (a session, or its absence on
  a 404), \<open>check_connection\<close> returns \<open>{"connected": b}\<close> where \<open>b\<close> is true exactly
  when the session exists and its status, compared without regard to case, is one of
  STARTED, CONNECTED, READY, and false for every other status and for an absent session.
  The code upper-cases the status; the spec case-folds it; both agree.
\<close>

theorem check_connection_iff:
  assumes "WahaClient_get_session_status E s session_name = (Inr session, s')"
  shows "SessionController_check_connection E s session_name =
           (Inr [(''connected'', spec_connected session)], s')"
  using assms
  by (simp add: SessionController_check_connection_def spec_connected_def
      upper_in_connected_statuses split: option.split)

theorem check_connection_iff_witness:
  "WahaClient_get_session_status
     (world (always 200 []
        (Some (JObj [(''id'', JStr ''s1''), (''name'', JStr ''s1''), (''status'', JStr ''Ready'')]))))
     fresh ''s1''
   = (Inr (Some \<lparr>ws_id = ''s1'', ws_name = ''s1'', ws_status = ''Ready'', ws_config = [],
                   ws_created_at = None, ws_updated_at = None\<rparr>),
      \<lparr>http_client = Some False,
       calls = [\<lparr>verb = GET, url = ''http://waha:3000/api/sessions/s1'',
                 headers = [(''Content-Type'', ''application/json''), (''Accept'', ''application/json'')],
                 body = NoBody\<rparr>]\<rparr>)
   \<and> SessionController_check_connection
     (world (always 200 []
        (Some (JObj [(''id'', JStr ''s1''), (''name'', JStr ''s1''), (''status'', JStr ''Ready'')]))))
     fresh ''s1''
   = (Inr [(''connected'', True)],
      \<lparr>http_client = Some False,
       calls = [\<lparr>verb = GET, url = ''http://waha:3000/api/sessions/s1'',
                 headers = [(''Content-Type'', ''application/json''), (''Accept'', ''application/json'')],
                 body = NoBody\<rparr>]\<rparr>)"
proof -
  let ?E = "world (always 200 []
        (Some (JObj [(''id'', JStr ''s1''), (''name'', JStr ''s1''), (''status'', JStr ''Ready'')])))"
  let ?w = "\<lparr>ws_id = ''s1'', ws_name = ''s1'', ws_status = ''Ready'', ws_config = [],
                   ws_created_at = None, ws_updated_at = None\<rparr>"
  let ?s' = "\<lparr>http_client = Some False,
       calls = [\<lparr>verb = GET, url = ''http://waha:3000/api/sessions/s1'',
                 headers = [(''Content-Type'', ''application/json''), (''Accept'', ''application/json'')],
                 body = NoBody\<rparr>]\<rparr>"
  have run: "WahaClient_get_session_status ?E fresh ''s1'' = (Inr (Some ?w), ?s')"
    by (simp add: WahaClient_get_session_status_def send_def get_client_def fresh_def WahaClient_get_headers_def world_def
        always_def raise_for_status_def response_json_def WahaSession_init_def get_str_def
        get_dict_def get_opt_datetime_def)
  have "spec_connected (Some ?w)"
    by (simp add: spec_connected_def casefold_def lower_char_def char_of_eq_iff)
  with check_connection_iff [OF run] run show ?thesis by simp
qed
text \<open>
  C3. For every session name for which the upstream status endpoint answers HTTP 404,
  \<open>SessionController.get_session_status\<close> returns (it does not raise) the synthetic
  response whose session has the requested name as id and name and the status
  \<open>NOT_FOUND\<close>, with connected false and phone null.
\<close>

theorem get_session_status_not_found:
  assumes "upstream E (calls s)
             \<lparr>verb = GET, url = base_url E @ ''/api/sessions/'' @ session_name,
              headers = WahaClient_get_headers E,
              body = NoBody\<rparr>
           = Answered a"
    and "status_code a = 404"
  shows "fst (SessionController_get_session_status E s session_name) =
           Inr \<lparr>ssr_session = \<lparr>sr_id = session_name, sr_name = session_name,
                                sr_status = ''NOT_FOUND'', sr_config = None,
                                sr_created_at = None\<rparr>,
                ssr_connected = False, ssr_phone = None\<rparr>"
  using assms
  by (simp add: SessionController_get_session_status_def WahaClient_get_session_status_def
      send_def calls_get_client SessionResponse_init_def SessionStatusResponse_init_def)

theorem get_session_status_not_found_witness:
  "upstream (world (always 404 [] None)) (calls fresh)
     \<lparr>verb = GET, url = base_url (world (always 404 [] None)) @ ''/api/sessions/'' @ ''ghost'',
      headers = WahaClient_get_headers (world (always 404 [] None)),
      body = NoBody\<rparr>
     = Answered \<lparr>status_code = 404, content = [], json_body = None\<rparr>
   \<and> status_code \<lparr>status_code = 404, content = [], json_body = None\<rparr> = 404
   \<and> fst (SessionController_get_session_status (world (always 404 [] None)) fresh ''ghost'') =
       Inr \<lparr>ssr_session = \<lparr>sr_id = ''ghost'', sr_name = ''ghost'', sr_status = ''NOT_FOUND'',
                            sr_config = None, sr_created_at = None\<rparr>,
            ssr_connected = False, ssr_phone = None\<rparr>"
  using get_session_status_not_found
    [of "world (always 404 [] None)" fresh "''ghost''"
        "\<lparr>status_code = 404, content = [], json_body = None\<rparr>"]
  by (simp add: world_def always_def)
section \<open>Sending a file\<close>

text \<open>
  C5. Every call of \<open>WahaClient.send_file\<close> in which \<open>file_path\<close>, \<open>file_content\<close> and
  \<open>file_url\<close> are all absent fails with the validation error (\<open>ValueError\<close>) and issues
  no upstream HTTP request: the log of calls is the one it started with.
\<close>

theorem send_file_without_source:
  "WahaClient_send_file E s session_name chat_id None None None caption filename =
     (Inl (ValueError ''Must provide file_path, file_content, or file_url''), get_client s)
   \<and> calls (snd (WahaClient_send_file E s session_name chat_id None None None caption filename))
       = calls s"
  by (simp add: WahaClient_send_file_def read_source_def calls_get_client)

section \<open>The health check\<close>

lemma health_check_body:
  "fst (health_check E s) =
     Inr \<lparr>hr_status = (if fst (WahaClient_ping E s) then ''healthy'' else ''degraded''),
          hr_waha_connected = fst (WahaClient_ping E s), hr_timestamp = utcnow E\<rparr>
   \<and> fst (WahaClient_ping E s) =
       (case upstream E (calls s)
               \<lparr>verb = GET, url = base_url E @ ''/ping'',
                headers = WahaClient_get_headers E, body = NoBody\<rparr> of
          Failed \<Rightarrow> False
        | Answered a \<Rightarrow> 200 \<le> status_code a \<and> status_code a < 300)"
  by (simp add: health_check_def HealthResponse_init_def WahaClient_ping_def send_def
      raise_for_status_def calls_get_client split: prod.split http_outcome.split)

lemma send_message_route_declares: "declare_route send_message_parameters = Inr ()"
  by (simp add: send_message_parameters_def declare_parameter_def)

lemma get_health_never_served: "get_health E s = Inl (FastAPIError ''WahaClient'')"
  by (simp add: get_health_def health_check_parameters_def declare_parameter_def)

text \<open>
  C8. \<open>GET /health\<close> with the upstream ping failing, run on the code. The handler's body
  would do what the claim says (\<open>ping\<close> gives false, the body builds the degraded
  response), but the handler declares its parameter \<open>waha_client: WahaClient\<close> without
  \<open>Depends\<close>, so declaring the route raises \<open>FastAPIError\<close>: the endpoint is never
  served, and no request to it is answered with HTTP 200.
\<close>

theorem health_check_scenario:
  "fst (WahaClient_ping (world (\<lambda>log r. Failed)) fresh) = False
   \<and> fst (health_check (world (\<lambda>log r. Failed)) fresh) =
       Inr \<lparr>hr_status = ''degraded'', hr_waha_connected = False, hr_timestamp = Datetime 0\<rparr>
   \<and> declare_route health_check_parameters = Inl (FastAPIError ''WahaClient'')
   \<and> get_health (world (\<lambda>log r. Failed)) fresh = Inl (FastAPIError ''WahaClient'')"
  by (simp add: get_health_def health_check_parameters_def declare_parameter_def
      health_check_def HealthResponse_init_def WahaClient_ping_def send_def world_def)

section \<open>Groups\<close>

lemma get_groups_logs_one:
  "calls (snd (WahaClient_get_groups E s session_name)) =
     calls s @ [\<lparr>verb = GET, url = base_url E @ ''/api/sessions/'' @ session_name @ ''/groups'',
                 headers = WahaClient_get_headers E,
                 body = NoBody\<rparr>]"
  by (simp add: WahaClient_get_groups_def send_def calls_get_client
      split: http_outcome.split sum.split)

lemma scan_groups_absent:
  "group_id \<notin> wg_id ` set groups \<Longrightarrow>
   scan_groups group_id groups = [(''error'', PStr ''Group not found'')]"
  by (induction groups) auto

text \<open>
  C6. For every session name and group id, when the group id does not occur in the list
  the upstream group-list call returned, \<open>GroupController.get_group_details\<close> returns
  the sentinel record \<open>{"error": "Group not found"}\<close> (a value, not an exception), and
  the only upstream call it made is the one fetch of the list.
\<close>

theorem get_group_details_absent:
  assumes "WahaClient_get_groups E s session_name = (Inr groups, s')"
    and "group_id \<notin> wg_id ` set groups"
  shows "GroupController_get_group_details E s session_name group_id =
           (Inr [(''error'', PStr ''Group not found'')], s')
         \<and> calls s' =
             calls s @ [\<lparr>verb = GET,
                         url = base_url E @ ''/api/sessions/'' @ session_name @ ''/groups'',
                         headers = WahaClient_get_headers E,
                         body = NoBody\<rparr>]"
proof -
  have "calls (snd (WahaClient_get_groups E s session_name)) = calls s'"
    by (simp only: assms(1) snd_conv)
  then have logged:
    "calls s' =
       calls s @ [\<lparr>verb = GET,
                   url = base_url E @ ''/api/sessions/'' @ session_name @ ''/groups'',
                   headers = WahaClient_get_headers E,
                   body = NoBody\<rparr>]"
    by (simp only: get_groups_logs_one)
  have sentinel:
    "GroupController_get_group_details E s session_name group_id =
       (Inr [(''error'', PStr ''Group not found'')], s')"
    using assms by (simp add: GroupController_get_group_details_def scan_groups_absent)
  show ?thesis by (rule conjI) (fact sentinel, fact logged)
qed

theorem get_group_details_absent_witness:
  "WahaClient_get_groups
     (world (always 200 [] (Some (JArr [JObj [(''id'', JStr ''g1''), (''name'', JStr ''Team'')]]))))
     fresh ''s1''
   = (Inr [\<lparr>wg_id = ''g1'', wg_name = ''Team'', wg_description = None, wg_participants = [],
            wg_created_at = None\<rparr>],
      \<lparr>http_client = Some False,
       calls = [\<lparr>verb = GET, url = ''http://waha:3000/api/sessions/s1/groups'',
                 headers = [(''Content-Type'', ''application/json''), (''Accept'', ''application/json'')],
                 body = NoBody\<rparr>]\<rparr>)
   \<and> ''g2'' \<notin> wg_id ` set [\<lparr>wg_id = ''g1'', wg_name = ''Team'', wg_description = None,
                               wg_participants = [], wg_created_at = None\<rparr>]
   \<and> GroupController_get_group_details
     (world (always 200 [] (Some (JArr [JObj [(''id'', JStr ''g1''), (''name'', JStr ''Team'')]]))))
     fresh ''s1'' ''g2''
   = (Inr [(''error'', PStr ''Group not found'')],
      \<lparr>http_client = Some False,
       calls = [\<lparr>verb = GET, url = ''http://waha:3000/api/sessions/s1/groups'',
                 headers = [(''Content-Type'', ''application/json''), (''Accept'', ''application/json'')],
                 body = NoBody\<rparr>]\<rparr>)"
proof -
  let ?E = "world (always 200 [] (Some (JArr [JObj [(''id'', JStr ''g1''), (''name'', JStr ''Team'')]])))"
  let ?g = "\<lparr>wg_id = ''g1'', wg_name = ''Team'', wg_description = None, wg_participants = [],
            wg_created_at = None\<rparr>"
  let ?s' = "\<lparr>http_client = Some False,
       calls = [\<lparr>verb = GET, url = ''http://waha:3000/api/sessions/s1/groups'',
                 headers = [(''Content-Type'', ''application/json''), (''Accept'', ''application/json'')],
                 body = NoBody\<rparr>]\<rparr>"
  have run: "WahaClient_get_groups ?E fresh ''s1'' = (Inr [?g], ?s')"
    by (simp add: WahaClient_get_groups_def send_def get_client_def fresh_def WahaClient_get_headers_def world_def
        always_def raise_for_status_def response_json_def WahaGroup_init_def get_str_def
        get_opt_str_def get_str_list_def get_opt_datetime_def)
  have absent: "''g2'' \<notin> wg_id ` set [?g]" by simp
  from get_group_details_absent [OF run absent] run absent show ?thesis by simp
qed

section \<open>Downloading a file\<close>

text \<open>
  C7. For every byte string the upstream download call returned, the record
  \<open>FileController.download_file\<close> returns has a \<open>file\<close> field whose Base64 decoding is
  exactly those bytes, and a \<open>message_id\<close> field equal to the requested message id.
\<close>

theorem download_file_roundtrip:
  assumes "WahaClient_download_file E s session_name message_id = (Inr data, s')"
  shows "\<exists>record. FileController_download_file E s session_name message_id = (Inr record, s')
           \<and> Option.bind (map_of record ''file'') b64decode = Some data
           \<and> map_of record ''message_id'' = Some message_id"
  using assms by (simp add: FileController_download_file_def b64decode_b64encode)

theorem download_file_roundtrip_witness:
  "WahaClient_download_file (world (always 200 [72, 105, 33, 255] None)) fresh ''s1'' ''m7''
   = (Inr [72, 105, 33, 255],
      \<lparr>http_client = Some False,
       calls = [\<lparr>verb = GET, url = ''http://waha:3000/api/sessions/s1/messages/m7/download'',
                 headers = [(''Content-Type'', ''application/json''), (''Accept'', ''application/json'')],
                 body = NoBody\<rparr>]\<rparr>)
   \<and> (\<exists>record.
        FileController_download_file (world (always 200 [72, 105, 33, 255] None)) fresh
          ''s1'' ''m7''
        = (Inr record,
           \<lparr>http_client = Some False,
            calls = [\<lparr>verb = GET, url = ''http://waha:3000/api/sessions/s1/messages/m7/download'',
                      headers = [(''Content-Type'', ''application/json''), (''Accept'', ''application/json'')],
                      body = NoBody\<rparr>]\<rparr>)
        \<and> Option.bind (map_of record ''file'') b64decode = Some [72, 105, 33, 255]
        \<and> map_of record ''message_id'' = Some ''m7'')"
proof -
  have run:
    "WahaClient_download_file (world (always 200 [72, 105, 33, 255] None)) fresh ''s1'' ''m7''
     = (Inr [72, 105, 33, 255],
        \<lparr>http_client = Some False,
         calls = [\<lparr>verb = GET, url = ''http://waha:3000/api/sessions/s1/messages/m7/download'',
                   headers = [(''Content-Type'', ''application/json''), (''Accept'', ''application/json'')],
                   body = NoBody\<rparr>]\<rparr>)"
    by (simp add: WahaClient_download_file_def send_def get_client_def fresh_def WahaClient_get_headers_def world_def
        always_def raise_for_status_def)
  from download_file_roundtrip [OF run] run show ?thesis by simp
qed

section \<open>Sending a text message\<close>

lemma MessageResponse_init_without_timestamp:
  "\<exists>fields. MessageResponse_init i c st None = Inl (ValidationError fields)"
  by (simp add: MessageResponse_init_def split: option.split)

lemma send_message_always_raises:
  "\<exists>e. fst (MessageController_send_message E s session_name chat_id message quoted) = Inl e"
  using MessageResponse_init_without_timestamp
  by (simp add: MessageController_send_message_def split: prod.split sum.split) metis

text \<open>
  C1. The scenario of the claim, run on the code: session \<open>s1\<close>, chat id \<open>123\<close>, message
  \<open>hi\<close>, the upstream answering 200 with \<open>{"id":"m1","status":"sent"}\<close>. The client
  returns that object, but the controller builds \<open>MessageResponse\<close> without its required
  \<open>timestamp\<close>, so the construction raises \<open>ValidationError\<close> and the route answers
  with HTTP 500 instead of the record and HTTP 200.
\<close>

theorem send_message_scenario:
  "fst (WahaClient_send_message
          (world (always 200 [] (Some (JObj [(''id'', JStr ''m1''), (''status'', JStr ''sent'')]))))
          fresh ''s1'' ''123'' ''hi'' None)
     = Inr (JObj [(''id'', JStr ''m1''), (''status'', JStr ''sent'')])
   \<and> fst (MessageController_send_message
          (world (always 200 [] (Some (JObj [(''id'', JStr ''m1''), (''status'', JStr ''sent'')]))))
          fresh ''s1'' ''123'' ''hi'' None)
     = Inl (ValidationError [''timestamp''])
   \<and> http_status (fst (route_send_message
          (world (always 200 [] (Some (JObj [(''id'', JStr ''m1''), (''status'', JStr ''sent'')]))))
          fresh ''s1'' ''123'' ''hi'' None))
     = 500"
  by (simp add: route_send_message_def MessageController_send_message_def
      WahaClient_send_message_def send_def get_client_def fresh_def WahaClient_get_headers_def world_def always_def
      raise_for_status_def response_json_def dict_get_def MessageResponse_init_def
      str_arg_def offending_def)

section \<open>Listing sessions\<close>

lemma list_sessions_never_lists:
  "fst (SessionController_list_sessions E s) = Inr found \<Longrightarrow> found = []"
  by (auto simp add: SessionController_list_sessions_def WahaSession_getattr_def
      split: prod.splits sum.splits option.splits)

text \<open>
  C2. \<open>list_sessions\<close> run against an upstream that finds a session for the empty name:
  the status call is made for the name \<open>""\<close> and returns the session, and reading its
  attribute \<open>session\<close>, which a \<open>WahaSession\<close> does not have, raises
  \<open>AttributeError\<close> where the claim expects a one-element list.
\<close>

theorem list_sessions_scenario:
  "WahaClient_get_session_status
     (world (always 200 []
        (Some (JObj [(''id'', JStr ''d''), (''name'', JStr ''default''), (''status'', JStr ''STARTED'')]))))
     fresh ''''
   = (Inr (Some \<lparr>ws_id = ''d'', ws_name = ''default'', ws_status = ''STARTED'', ws_config = [],
                   ws_created_at = None, ws_updated_at = None\<rparr>),
      \<lparr>http_client = Some False,
       calls = [\<lparr>verb = GET, url = ''http://waha:3000/api/sessions/'',
                 headers = [(''Content-Type'', ''application/json''), (''Accept'', ''application/json'')],
                 body = NoBody\<rparr>]\<rparr>)
   \<and> SessionController_list_sessions
     (world (always 200 []
        (Some (JObj [(''id'', JStr ''d''), (''name'', JStr ''default''), (''status'', JStr ''STARTED'')]))))
     fresh
   = (Inl (AttributeError ''session''),
      \<lparr>http_client = Some False,
       calls = [\<lparr>verb = GET, url = ''http://waha:3000/api/sessions/'',
                 headers = [(''Content-Type'', ''application/json''), (''Accept'', ''application/json'')],
                 body = NoBody\<rparr>]\<rparr>)"
  by (simp add: SessionController_list_sessions_def WahaSession_getattr_def
      WahaClient_get_session_status_def send_def get_client_def fresh_def WahaClient_get_headers_def world_def
      always_def raise_for_status_def response_json_def WahaSession_init_def get_str_def
      get_dict_def get_opt_datetime_def)

section \<open>Sending a file: telling the sources apart\<close>

lemma send_file_content_type:
  "map_of (headers (files_request E session_name chat_id data caption filename))
     ''Content-Type'' = Some ''application/json''"
  by (simp add: files_request_def WahaClient_get_headers_def)

text \<open>
  C9, as stated, fails on calls that supply byte content. With the empty byte string as
  content and a URL, the one request carries the JSON payload of the URL branch. With
  content and a path to an empty file, the bytes read from the path replace the content
  and the same happens. With content and a path that cannot be opened, the call raises
  \<open>OSError\<close> and issues no request at all.
\<close>

theorem send_file_empty_content_counterexample:
  "calls (snd (WahaClient_send_file (world (always 200 [] (Some (JObj [])))) fresh
                 ''s1'' ''123'' None (Some []) (Some ''http://files/a.png'') (Some ''hi'') None))
   = [\<lparr>verb = POST, url = ''http://waha:3000/api/sessions/s1/send/file'',
       headers = [(''Content-Type'', ''application/json''), (''Accept'', ''application/json'')],
       body = JsonBody (JObj [(''chatId'', JStr ''123''), (''url'', JStr ''http://files/a.png''),
                              (''caption'', JStr ''hi''), (''filename'', JNull)])\<rparr>]
   \<and> calls (snd (WahaClient_send_file
                   ((world (always 200 [] (Some (JObj []))))
                      \<lparr>file_system := [''/tmp/empty'' \<mapsto> []]\<rparr>)
                   fresh ''s1'' ''123'' (Some ''/tmp/empty'') (Some [1, 2, 3])
                   (Some ''http://files/a.png'') (Some ''hi'') None))
   = [\<lparr>verb = POST, url = ''http://waha:3000/api/sessions/s1/send/file'',
       headers = [(''Content-Type'', ''application/json''), (''Accept'', ''application/json'')],
       body = JsonBody (JObj [(''chatId'', JStr ''123''), (''url'', JStr ''http://files/a.png''),
                              (''caption'', JStr ''hi''), (''filename'', JNull)])\<rparr>]
   \<and> WahaClient_send_file (world (always 200 [] (Some (JObj [])))) fresh
       ''s1'' ''123'' (Some ''/tmp/missing'') (Some [1, 2, 3]) None (Some ''hi'') None
   = (Inl (OSError ''/tmp/missing''), \<lparr>http_client = Some False, calls = []\<rparr>)"
  by (simp add: WahaClient_send_file_def read_source_def post_and_decode_def send_def
      url_request_def opt_str_json_def get_client_def fresh_def WahaClient_get_headers_def
      world_def always_def raise_for_status_def response_json_def)

text \<open>
  C9, amended. Take a call of \<open>WahaClient.send_file\<close> that supplies byte content, and
  let its effective content be the bytes read from \<open>file_path\<close> when a path is given and
  the supplied bytes otherwise. Whenever the effective content can be read and is not
  empty, the call issues exactly one request, a POST to the session's \<open>send/file\<close>
  endpoint made with \<open>files=\<close> and \<open>data=\<close>: its only file part has the field name
  \<open>file\<close> and carries the effective content, and the form field \<open>caption\<close> is present
  if and only if the caption argument is a non-empty string. Nothing is said here about
  the headers the request goes out with.
\<close>

theorem send_file_content_file_part:
  assumes "(case file_path of None \<Rightarrow> Some file_content | Some p \<Rightarrow> file_system E p)
           = Some data"
    and "data \<noteq> []"
  shows "\<exists>r name fields.
           calls (snd (WahaClient_send_file E s session_name chat_id file_path
                         (Some file_content) file_url caption filename))
           = calls s @ [r]
           \<and> verb r = POST
           \<and> url r = base_url E @ ''/api/sessions/'' @ session_name @ ''/send/file''
           \<and> body r = FilesBody [(''file'', name, data)] fields
           \<and> (''caption'' \<in> fst ` set fields \<longleftrightarrow> truthy caption)
           \<and> map_of fields ''caption'' = (if truthy caption then caption else None)"
proof -
  let ?fields = "[(''chatId'', chat_id)] @ (if truthy caption then [(''caption'', the caption)] else [])"
  let ?r = "files_request E session_name chat_id data caption filename"
  have source: "read_source E file_path (Some file_content) = Inr (Some data)"
  proof (cases file_path)
    case None
    then show ?thesis using assms(1) by (simp add: read_source_def)
  next
    case (Some p)
    then show ?thesis using assms(1) by (simp add: read_source_def)
  qed
  have "calls (snd (WahaClient_send_file E s session_name chat_id file_path
                      (Some file_content) file_url caption filename))
        = calls s @ [?r]"
    using assms(2)
    by (simp add: WahaClient_send_file_def source post_and_decode_logs_one calls_get_client)
  moreover have "verb ?r = POST"
    and "url ?r = base_url E @ ''/api/sessions/'' @ session_name @ ''/send/file''"
    and "body ?r = FilesBody [(''file'', filename_or_file filename, data)] ?fields"
    by (simp_all add: files_request_def)
  moreover have "''caption'' \<in> fst ` set ?fields \<longleftrightarrow> truthy caption"
    by (cases "truthy caption") simp_all
  moreover have "map_of ?fields ''caption'' = (if truthy caption then caption else None)"
    by (cases caption) simp_all
  ultimately show ?thesis by blast
qed

theorem send_file_content_file_part_witness:
  "(case Some ''/tmp/a.bin'' of None \<Rightarrow> Some [1, 2, 3] | Some p \<Rightarrow>
      file_system ((world (always 200 [] (Some (JObj []))))
                     \<lparr>file_system := [''/tmp/a.bin'' \<mapsto> [7, 7]]\<rparr>) p) = Some [7, 7 :: byte]
   \<and> [7, 7 :: byte] \<noteq> []
   \<and> (\<exists>r name fields.
        calls (snd (WahaClient_send_file
                      ((world (always 200 [] (Some (JObj []))))
                         \<lparr>file_system := [''/tmp/a.bin'' \<mapsto> [7, 7]]\<rparr>)
                      fresh ''s1'' ''123'' (Some ''/tmp/a.bin'') (Some [1, 2, 3]) None
                      (Some '''') None))
        = calls fresh @ [r]
        \<and> verb r = POST
        \<and> url r = ''http://waha:3000/api/sessions/s1/send/file''
        \<and> body r = FilesBody [(''file'', name, [7, 7])] fields
        \<and> ''caption'' \<notin> fst ` set fields
        \<and> map_of fields ''caption'' = None)"
  using send_file_content_file_part
    [where file_path = "Some ''/tmp/a.bin''" and file_content = "[1, 2, 3]"
       and E = "(world (always 200 [] (Some (JObj []))))
                  \<lparr>file_system := [''/tmp/a.bin'' \<mapsto> [7, 7]]\<rparr>"
       and data = "[7, 7]" and s = fresh and session_name = "''s1''" and chat_id = "''123''"
       and file_url = None and caption = "Some ''''" and filename = None]
  by (simp add: world_def)

text \<open>
  C10. \<open>send_file\<close> tells its sources apart by truthiness. With no file path and the
  empty byte string as content, the content branch is skipped: the call takes the URL
  branch when \<open>file_url\<close> is a non-empty string, and raises the validation error without
  any request otherwise; so an empty file is never sent. With a
  file path, the supplied content plays no part: the result is the one for the bytes
  read from the path.
\<close>

theorem send_file_truthiness:
  "WahaClient_send_file E s session_name chat_id None (Some []) file_url caption filename =
     (if truthy file_url
      then post_and_decode E (get_client s)
             (url_request E session_name chat_id (the file_url) caption filename)
      else (Inl (ValueError ''Must provide file_path, file_content, or file_url''),
            get_client s))
   \<and> calls (snd (WahaClient_send_file E s session_name chat_id None (Some []) file_url caption
                   filename)) =
       calls s @ (if truthy file_url
                  then [url_request E session_name chat_id (the file_url) caption filename]
                  else [])
   \<and> WahaClient_send_file E s session_name chat_id (Some path) file_content file_url caption
       filename =
     WahaClient_send_file E s session_name chat_id (Some path) None file_url caption filename
   \<and> (file_system E path = Some stored \<longrightarrow>
        WahaClient_send_file E s session_name chat_id (Some path) file_content file_url caption
          filename =
        WahaClient_send_file E s session_name chat_id None (Some stored) file_url caption
          filename)"
  by (simp add: WahaClient_send_file_def read_source_def post_and_decode_logs_one
      calls_get_client)

theorem send_file_truthiness_witness:
  "file_system ((world (always 200 [] (Some (JObj []))))
                  \<lparr>file_system := [''/tmp/a.bin'' \<mapsto> [7, 7]]\<rparr>) ''/tmp/a.bin'' = Some [7, 7]
   \<and> calls (snd (WahaClient_send_file
                   ((world (always 200 [] (Some (JObj []))))
                      \<lparr>file_system := [''/tmp/a.bin'' \<mapsto> [7, 7]]\<rparr>)
                   fresh ''s1'' ''123'' (Some ''/tmp/a.bin'') (Some [1, 2, 3]) None None None))
     = [\<lparr>verb = POST, url = ''http://waha:3000/api/sessions/s1/send/file'',
         headers = [(''Content-Type'', ''application/json''), (''Accept'', ''application/json'')],
         body = FilesBody [(''file'', ''file'', [7, 7])] [(''chatId'', ''123'')]\<rparr>]
   \<and> WahaClient_send_file (world (always 200 [] (Some (JObj [])))) fresh ''s1'' ''123'' None
       (Some []) None None None
     = (Inl (ValueError ''Must provide file_path, file_content, or file_url''),
        \<lparr>http_client = Some False, calls = []\<rparr>)"
proof -
  let ?E = "(world (always 200 [] (Some (JObj []))))\<lparr>file_system := [''/tmp/a.bin'' \<mapsto> [7, 7]]\<rparr>"
  have stored: "file_system ?E ''/tmp/a.bin'' = Some [7, 7]"
    by simp
  have direct:
    "calls (snd (WahaClient_send_file ?E fresh ''s1'' ''123'' None (Some [7, 7]) None None None))
     = [\<lparr>verb = POST, url = ''http://waha:3000/api/sessions/s1/send/file'',
         headers = [(''Content-Type'', ''application/json''), (''Accept'', ''application/json'')],
         body = FilesBody [(''file'', ''file'', [7, 7])] [(''chatId'', ''123'')]\<rparr>]"
    by (simp add: WahaClient_send_file_def read_source_def post_and_decode_def send_def
        files_request_def filename_or_file_def get_client_def fresh_def WahaClient_get_headers_def world_def always_def
        raise_for_status_def response_json_def)
  have empty:
    "WahaClient_send_file (world (always 200 [] (Some (JObj [])))) fresh ''s1'' ''123'' None
       (Some []) None None None
     = (Inl (ValueError ''Must provide file_path, file_content, or file_url''),
        \<lparr>http_client = Some False, calls = []\<rparr>)"
    using send_file_truthiness
      [of "world (always 200 [] (Some (JObj [])))" fresh "''s1''" "''123''" None None None]
    by (simp add: get_client_def fresh_def)
  have "WahaClient_send_file ?E fresh ''s1'' ''123'' (Some ''/tmp/a.bin'') (Some [1, 2, 3]) None
          None None
        = WahaClient_send_file ?E fresh ''s1'' ''123'' None (Some [7, 7]) None None None"
    using send_file_truthiness
      [of ?E fresh "''s1''" "''123''" None None None "''/tmp/a.bin''" "Some [1, 2, 3]" "[7, 7]"]
      stored
    by blast
  with direct stored empty show ?thesis by simp
qed

end
